theory Spec2Isabelle
  imports Complex_Main
begin

section \<open>TextBitmap: a text mesh over a bitmap font atlas\<close>

text \<open>
  The embedding follows the JavaScript constructor function \<open>TextBitmap\<close> and its
  prototype methods. JavaScript numbers are only stored and compared with \<open>===\<close> here,
  never computed with, so they are modelled as \<open>real\<close>. A property that is
  \<open>undefined\<close> is \<open>None\<close>.
\<close>

type_synonym number = real

subsection \<open>Static attributes\<close>

definition BITMAP :: number where "BITMAP = 100"
definition SDF :: number where "SDF = 101"
definition MSDF :: number where "MSDF = 102"

definition LEFT :: string where "LEFT = ''left''"
definition CENTER :: string where "CENTER = ''center''"
definition RIGHT :: string where "RIGHT = ''right''"

text \<open>
  The shader sources are string literals made of lines that end in \<open>\n\<close>. They are kept
  as the list of their lines (the first line is empty, a leading tab is \<open>CHR 0x09\<close>).
\<close>

definition VERTEX_SHADER :: "string list" where
  "VERTEX_SHADER =
    ['''',
     ''#define BILLBOARD 0 '',
     '''',
     ''varying vec2 vUv;'',
     '''',
     ''void main()'',
     ''{'',
     CHR 0x09 # ''vUv = uv;'',
     [CHR 0x09],
     CHR 0x09 # ''#if BILLBOARD'',
     CHR 0x09 # CHR 0x09 # ''mat4 model = modelViewMatrix; '',
     CHR 0x09 # CHR 0x09 # ''model[0][0] = 1.0;'',
     CHR 0x09 # CHR 0x09 # ''model[0][1] = 0.0;'',
     CHR 0x09 # CHR 0x09 # ''model[0][2] = 0.0;'',
     [CHR 0x09, CHR 0x09],
     CHR 0x09 # CHR 0x09 # ''model[1][0] = 0.0;'',
     CHR 0x09 # CHR 0x09 # ''model[1][1] = 1.0;'',
     CHR 0x09 # CHR 0x09 # ''model[1][2] = 0.0;'',
     [CHR 0x09, CHR 0x09],
     CHR 0x09 # CHR 0x09 # ''model[2][0] = 0.0;'',
     CHR 0x09 # CHR 0x09 # ''model[2][1] = 0.0;'',
     CHR 0x09 # CHR 0x09 # ''model[2][2] = 1.0;'',
     [CHR 0x09, CHR 0x09],
     CHR 0x09 # CHR 0x09 # ''gl_Position = projectionMatrix * model * vec4(position, 1.0);'',
     CHR 0x09 # ''#else'',
     CHR 0x09 # CHR 0x09 # ''gl_Position = projectionMatrix * modelViewMatrix * vec4(position, 1.0);'',
     CHR 0x09 # ''#endif'',
     [CHR 0x09],
     ''}'']"

definition BITMAP_SHADER :: "string list" where
  "BITMAP_SHADER =
    ['''',
     ''varying vec2 vUv;'',
     ''uniform sampler2D map;'',
     '''',
     ''void main()'',
     ''{'',
     CHR 0x09 # ''gl_FragColor = texture2D(map, vUv);'',
     ''}'']"

definition SDF_SHADER :: "string list" where
  "SDF_SHADER =
    ['''',
     ''varying vec2 vUv;'',
     ''uniform sampler2D map;'',
     ''uniform vec3 color;'',
     ''uniform float smoothing;'',
     ''uniform float threshold;'',
     '''',
     ''void main()'',
     ''{'',
     CHR 0x09 # ''float distance = texture2D(map, vUv).a;'',
     CHR 0x09 # ''float alpha = smoothstep(threshold - smoothing, threshold + smoothing, distance);'',
     CHR 0x09 # ''gl_FragColor = vec4(color, alpha);'',
     ''}'']"

definition MSDF_SHADER :: "string list" where
  "MSDF_SHADER =
    ['''',
     ''#extension GL_OES_standard_derivatives : enable'',
     '''',
     ''varying vec2 vUv;'',
     ''uniform sampler2D map;'',
     ''uniform vec3 color;'',
     ''uniform float smoothing;'',
     ''uniform float threshold;'',
     '''',
     ''float median(float r, float g, float b)'',
     ''{'',
     CHR 0x09 # ''return max(min(r, g), min(max(r, g), b));'',
     ''}'',
     '''',
     ''void main()'',
     ''{'',
     CHR 0x09 # ''vec3 sample = texture2D(map, vUv).rgb;'',
     CHR 0x09 # ''float sigDist = median(sample.r, sample.g, sample.b) - 0.5;'',
     CHR 0x09 # ''float alpha = clamp(sigDist / fwidth(sigDist) + 0.5, 0.0, 1.0);'',
     CHR 0x09 # ''gl_FragColor = vec4(color, 1.0 - alpha);'',
     ''}'']"

subsection \<open>Data\<close>

text \<open>
  The parsed BMFont data. The constructor reads \<open>font.common.lineHeight\<close> only; \<open>face\<close>
  stands for the rest of the font data (glyph rectangles, pages, kernings).
\<close>

record bmcommon =
  base_lineHeight :: number

record bmfont =
  face :: string
  common :: bmcommon

text \<open>
  The configuration object handed to the geometry generator. The last four fields are
  documented in the constructor and only passed through.
\<close>

record config =
  font :: "bmfont option"
  text_c :: "string option"
  width :: "number option"
  align :: "string option"
  lineHeight :: "number option"
  letterSpacing :: "number option"
  wrap_mode :: "string option"
  tabSize :: "number option"
  start_ix :: "number option"
  end_ix :: "number option"

datatype texture = Texture nat

text \<open>\<open>new THREE.Color(hex)\<close>, kept as the hexadecimal number it was built from.\<close>

datatype three_color = THREE_Color number

datatype three_side = FrontSide | BackSide | DoubleSide

record 'a uniform =
  utype :: string
  uvalue :: 'a

record uniforms =
  map_u :: "texture uniform"
  color_u :: "three_color uniform"
  smoothing_u :: "number uniform"
  threshold_u :: "number uniform"

record material =
  uniforms :: uniforms
  fragmentShader :: "string list"
  vertexShader :: "string list"
  side :: three_side
  transparent :: bool
  depthTest :: bool

text \<open>
  Configuration objects live in a store and are held by reference: the caller and the
  instance may hold the same address. The store also keeps the trace of the calls made
  into the external geometry generator, each with the configuration it was given.
\<close>

type_synonym addr = nat

datatype engine_call = CreateGeometry config | GeometryUpdate config

record world =
  heap :: "addr \<Rightarrow> config"
  calls :: "engine_call list"

text \<open>
  The external geometry generator (three-bmfont-text) is not part of this code: it is a
  parameter. \<open>createGeometry\<close> builds a geometry from a configuration, \<open>update\<close> is the
  method of the geometry object that lays it out again for a configuration. \<open>'g\<close> is
  the vertex and UV data of a geometry.
\<close>

record 'g engine =
  createGeometry :: "config \<Rightarrow> 'g"
  update :: "'g \<Rightarrow> config \<Rightarrow> 'g"

record 'g textbitmap =
  config_ref :: addr
  mode :: number
  geometry :: 'g
  material :: material
  name :: string
  obj_type :: string

datatype error = Error string | TypeError string

type_synonym 'g state = "world \<times> 'g textbitmap"

subsection \<open>The constructor\<close>

definition default_width :: "config \<Rightarrow> config" where
  "default_width c = (if width c = None then c\<lparr>width := Some 500\<rparr> else c)"

definition default_align :: "config \<Rightarrow> config" where
  "default_align c = (if align c = None then c\<lparr>align := Some CENTER\<rparr> else c)"

text \<open>
  \<open>config.font.common.lineHeight\<close> raises a TypeError when \<open>config.font\<close> is undefined.
\<close>

definition default_lineHeight :: "config \<Rightarrow> error + config" where
  "default_lineHeight c =
    (if lineHeight c = None
     then (case font c of
             None \<Rightarrow> Inl (TypeError ''Cannot read property common of undefined'')
           | Some f \<Rightarrow> Inr (c\<lparr>lineHeight := Some (base_lineHeight (common f))\<rparr>))
     else Inr c)"

definition default_letterSpacing :: "config \<Rightarrow> config" where
  "default_letterSpacing c =
    (if letterSpacing c = None then c\<lparr>letterSpacing := Some 5\<rparr> else c)"

definition default_text :: "config \<Rightarrow> config" where
  "default_text c = (if text_c c = None then c\<lparr>text_c := Some ''''\<rparr> else c)"

definition select_shader :: "number \<Rightarrow> string list" where
  "select_shader m =
    (if m = SDF then SDF_SHADER else if m = MSDF then MSDF_SHADER else BITMAP_SHADER)"

definition new_material :: "texture \<Rightarrow> number option \<Rightarrow> string list \<Rightarrow> material" where
  "new_material tex color shader =
    \<lparr>uniforms =
       \<lparr>map_u = \<lparr>utype = ''t'', uvalue = tex\<rparr>,
        color_u = \<lparr>utype = ''v3'',
                   uvalue = THREE_Color (case color of Some c \<Rightarrow> c | None \<Rightarrow> 0xFFFFFF)\<rparr>,
        smoothing_u = \<lparr>utype = ''f'', uvalue = 0.0\<rparr>,
        threshold_u = \<lparr>utype = ''f'', uvalue = 0.4\<rparr>\<rparr>,
     fragmentShader = shader,
     vertexShader = VERTEX_SHADER,
     side = DoubleSide,
     transparent = True,
     depthTest = False\<rparr>"

definition updateGeometry :: "'g engine \<Rightarrow> 'g state \<Rightarrow> 'g state" where
  "updateGeometry E s =
    (case s of (w, tb) \<Rightarrow>
      (w\<lparr>calls := calls w @ [GeometryUpdate (heap w (config_ref tb))]\<rparr>,
       tb\<lparr>geometry := update E (geometry tb) (heap w (config_ref tb))\<rparr>))"

definition TextBitmap ::
  "'g engine \<Rightarrow> addr \<Rightarrow> texture \<Rightarrow> number option \<Rightarrow> number option \<Rightarrow> world
    \<Rightarrow> world \<times> (error + 'g textbitmap)" where
  "TextBitmap E config tex mode_arg color w =
    (if font (heap w config) = None
     then (w, Inl (Error ''TextBitmap configuration font is required.''))
     else
       let w1 = w\<lparr>heap := (heap w)(config := default_width (heap w config))\<rparr>;
           w2 = w1\<lparr>heap := (heap w1)(config := default_align (heap w1 config))\<rparr>
       in case default_lineHeight (heap w2 config) of
            Inl e \<Rightarrow> (w2, Inl e)
          | Inr c3 \<Rightarrow>
              let w3 = w2\<lparr>heap := (heap w2)(config := c3)\<rparr>;
                  w4 = w3\<lparr>heap := (heap w3)(config := default_letterSpacing (heap w3 config))\<rparr>;
                  w5 = w4\<lparr>heap := (heap w4)(config := default_text (heap w4 config))\<rparr>;
                  m = (case mode_arg of Some m \<Rightarrow> m | None \<Rightarrow> BITMAP);
                  mat = new_material tex color (select_shader m);
                  g = createGeometry E (heap w5 config);
                  w6 = w5\<lparr>calls := calls w5 @ [CreateGeometry (heap w5 config)]\<rparr>;
                  this = \<lparr>config_ref = config, mode = m, geometry = g, material = mat,
                          name = ''text'', obj_type = ''TextBitmap''\<rparr>
              in (case updateGeometry E (w6, this) of (w7, this') \<Rightarrow> (w7, Inr this')))"

subsection \<open>Properties defined on the instance\<close>

text \<open>
  The getters read through the instance's configuration reference. Each setter of a
  layout property assigns the field of the shared configuration object and then calls
  \<open>updateGeometry\<close>. The values written are values of the documented attribute types.
\<close>

definition this_config :: "'g state \<Rightarrow> config" where
  "this_config s = (case s of (w, tb) \<Rightarrow> heap w (config_ref tb))"

definition get_font :: "'g state \<Rightarrow> bmfont option" where
  "get_font s = font (this_config s)"

definition set_font :: "'g engine \<Rightarrow> bmfont \<Rightarrow> 'g state \<Rightarrow> 'g state" where
  "set_font E v s =
    (case s of (w, tb) \<Rightarrow>
      updateGeometry E
        (w\<lparr>heap := (heap w)(config_ref tb := (heap w (config_ref tb))\<lparr>font := Some v\<rparr>)\<rparr>, tb))"

definition get_text :: "'g state \<Rightarrow> string option" where
  "get_text s = text_c (this_config s)"

definition set_text :: "'g engine \<Rightarrow> string \<Rightarrow> 'g state \<Rightarrow> 'g state" where
  "set_text E v s =
    (case s of (w, tb) \<Rightarrow>
      updateGeometry E
        (w\<lparr>heap := (heap w)(config_ref tb := (heap w (config_ref tb))\<lparr>text_c := Some v\<rparr>)\<rparr>, tb))"

definition get_lineHeight :: "'g state \<Rightarrow> number option" where
  "get_lineHeight s = lineHeight (this_config s)"

definition set_lineHeight :: "'g engine \<Rightarrow> number \<Rightarrow> 'g state \<Rightarrow> 'g state" where
  "set_lineHeight E v s =
    (case s of (w, tb) \<Rightarrow>
      updateGeometry E
        (w\<lparr>heap := (heap w)(config_ref tb := (heap w (config_ref tb))\<lparr>lineHeight := Some v\<rparr>)\<rparr>,
         tb))"

definition get_letterSpacing :: "'g state \<Rightarrow> number option" where
  "get_letterSpacing s = letterSpacing (this_config s)"

definition set_letterSpacing :: "'g engine \<Rightarrow> number \<Rightarrow> 'g state \<Rightarrow> 'g state" where
  "set_letterSpacing E v s =
    (case s of (w, tb) \<Rightarrow>
      updateGeometry E
        (w\<lparr>heap := (heap w)(config_ref tb := (heap w (config_ref tb))\<lparr>letterSpacing := Some v\<rparr>)\<rparr>,
         tb))"

definition get_align :: "'g state \<Rightarrow> string option" where
  "get_align s = align (this_config s)"

definition set_align :: "'g engine \<Rightarrow> string \<Rightarrow> 'g state \<Rightarrow> 'g state" where
  "set_align E v s =
    (case s of (w, tb) \<Rightarrow>
      updateGeometry E
        (w\<lparr>heap := (heap w)(config_ref tb := (heap w (config_ref tb))\<lparr>align := Some v\<rparr>)\<rparr>, tb))"

definition get_width :: "'g state \<Rightarrow> number option" where
  "get_width s = width (this_config s)"

definition set_width :: "'g engine \<Rightarrow> number \<Rightarrow> 'g state \<Rightarrow> 'g state" where
  "set_width E v s =
    (case s of (w, tb) \<Rightarrow>
      updateGeometry E
        (w\<lparr>heap := (heap w)(config_ref tb := (heap w (config_ref tb))\<lparr>width := Some v\<rparr>)\<rparr>, tb))"

definition get_color :: "'g state \<Rightarrow> three_color" where
  "get_color s = uvalue (color_u (uniforms (material (snd s))))"

definition set_color :: "three_color \<Rightarrow> 'g state \<Rightarrow> 'g state" where
  "set_color v s =
    (case s of (w, tb) \<Rightarrow>
      (w, tb\<lparr>material := (material tb)\<lparr>uniforms := (uniforms (material tb))
            \<lparr>color_u := (color_u (uniforms (material tb)))\<lparr>uvalue := v\<rparr>\<rparr>\<rparr>\<rparr>))"

definition get_threshold :: "'g state \<Rightarrow> number" where
  "get_threshold s = uvalue (threshold_u (uniforms (material (snd s))))"

definition set_threshold :: "number \<Rightarrow> 'g state \<Rightarrow> 'g state" where
  "set_threshold v s =
    (case s of (w, tb) \<Rightarrow>
      (w, tb\<lparr>material := (material tb)\<lparr>uniforms := (uniforms (material tb))
            \<lparr>threshold_u := (threshold_u (uniforms (material tb)))\<lparr>uvalue := v\<rparr>\<rparr>\<rparr>\<rparr>))"

definition get_smoothing :: "'g state \<Rightarrow> number" where
  "get_smoothing s = uvalue (smoothing_u (uniforms (material (snd s))))"

definition set_smoothing :: "number \<Rightarrow> 'g state \<Rightarrow> 'g state" where
  "set_smoothing v s =
    (case s of (w, tb) \<Rightarrow>
      (w, tb\<lparr>material := (material tb)\<lparr>uniforms := (uniforms (material tb))
            \<lparr>smoothing_u := (smoothing_u (uniforms (material tb)))\<lparr>uvalue := v\<rparr>\<rparr>\<rparr>\<rparr>))"

subsection \<open>Prototype methods\<close>

text \<open>\<open>setText\<close> assigns \<open>this.text\<close>, which runs the setter of the \<open>text\<close> property.\<close>

definition setText :: "'g engine \<Rightarrow> string \<Rightarrow> 'g state \<Rightarrow> 'g state" where
  "setText E t s = set_text E t s"

subsection \<open>Sequences of operations on an instance\<close>

text \<open>
  What a client can do with an instance: assign one of the six layout properties, assign
  one of the three shading properties, call \<open>setText\<close>, call \<open>updateGeometry\<close>.
  \<open>run\<close> does a list of these in order.
\<close>

datatype layout_write =
  WFont bmfont | WText string | WLineHeight number | WLetterSpacing number
  | WAlign string | WWidth number

datatype shading_write = WColor three_color | WThreshold number | WSmoothing number

datatype operation =
  Layout layout_write | Shading shading_write | SetText string | UpdateGeometry

fun write_prop :: "'g engine \<Rightarrow> layout_write \<Rightarrow> 'g state \<Rightarrow> 'g state" where
  "write_prop E (WFont v) s = set_font E v s"
| "write_prop E (WText v) s = set_text E v s"
| "write_prop E (WLineHeight v) s = set_lineHeight E v s"
| "write_prop E (WLetterSpacing v) s = set_letterSpacing E v s"
| "write_prop E (WAlign v) s = set_align E v s"
| "write_prop E (WWidth v) s = set_width E v s"

fun shade :: "shading_write \<Rightarrow> 'g state \<Rightarrow> 'g state" where
  "shade (WColor v) s = set_color v s"
| "shade (WThreshold v) s = set_threshold v s"
| "shade (WSmoothing v) s = set_smoothing v s"

fun perform :: "'g engine \<Rightarrow> operation \<Rightarrow> 'g state \<Rightarrow> 'g state" where
  "perform E (Layout p) s = write_prop E p s"
| "perform E (Shading p) s = shade p s"
| "perform E (SetText t) s = setText E t s"
| "perform E UpdateGeometry s = updateGeometry E s"

fun run :: "'g engine \<Rightarrow> operation list \<Rightarrow> 'g state \<Rightarrow> 'g state" where
  "run E [] s = s"
| "run E (x # xs) s = run E xs (perform E x s)"

text \<open>What one write does to a configuration object, and what reading the property back gives.\<close>

fun assign :: "layout_write \<Rightarrow> config \<Rightarrow> config" where
  "assign (WFont v) c = c\<lparr>font := Some v\<rparr>"
| "assign (WText v) c = c\<lparr>text_c := Some v\<rparr>"
| "assign (WLineHeight v) c = c\<lparr>lineHeight := Some v\<rparr>"
| "assign (WLetterSpacing v) c = c\<lparr>letterSpacing := Some v\<rparr>"
| "assign (WAlign v) c = c\<lparr>align := Some v\<rparr>"
| "assign (WWidth v) c = c\<lparr>width := Some v\<rparr>"

fun reads_back :: "layout_write \<Rightarrow> 'g state \<Rightarrow> bool" where
  "reads_back (WFont v) s = (get_font s = Some v)"
| "reads_back (WText v) s = (get_text s = Some v)"
| "reads_back (WLineHeight v) s = (get_lineHeight s = Some v)"
| "reads_back (WLetterSpacing v) s = (get_letterSpacing s = Some v)"
| "reads_back (WAlign v) s = (get_align s = Some v)"
| "reads_back (WWidth v) s = (get_width s = Some v)"

fun merge :: "layout_write list \<Rightarrow> config \<Rightarrow> config" where
  "merge [] c = c"
| "merge (p # ps) c = merge ps (assign p c)"

subsection \<open>The contract of the external geometry generator\<close>

text \<open>
  Modelled from the spec: the geometry generator itself is a third-party library that is
  not in the source tree. The spec gives it as \<open>generateGeometry(config) -> Geometry\<close>,
  a pure computation over the configuration: what \<open>update\<close> leaves in a geometry
  depends on the configuration it is given, not on the geometry's earlier contents.
\<close>

definition layout_pure :: "'g engine \<Rightarrow> bool" where
  "layout_pure E = (\<forall>g g' c. update E g c = update E g' c)"

subsection \<open>A concrete generator and concrete inputs\<close>

text \<open>
  A small generator for running the definitions on concrete inputs: it places the
  characters of the text on one line, \<open>letterSpacing\<close> apart.
\<close>

fun place :: "number \<Rightarrow> number \<Rightarrow> string \<Rightarrow> (char \<times> number) list" where
  "place x sp [] = []"
| "place x sp (ch # cs) = (ch, x) # place (x + sp) sp cs"

definition line_layout :: "config \<Rightarrow> (char \<times> number) list" where
  "line_layout c =
    place 0 (case letterSpacing c of Some sp \<Rightarrow> sp | None \<Rightarrow> 0)
      (case text_c c of Some t \<Rightarrow> t | None \<Rightarrow> [])"

definition line_engine :: "(char \<times> number) list engine" where
  "line_engine = \<lparr>createGeometry = line_layout, update = (\<lambda>g c. line_layout c)\<rparr>"

definition font_F :: bmfont where
  "font_F = \<lparr>face = ''Arial'', common = \<lparr>base_lineHeight = 32\<rparr>\<rparr>"

definition font_G :: bmfont where
  "font_G = \<lparr>face = ''Lato'', common = \<lparr>base_lineHeight = 48\<rparr>\<rparr>"

definition no_config :: config where
  "no_config =
    \<lparr>font = None, text_c = None, width = None, align = None, lineHeight = None,
     letterSpacing = None, wrap_mode = None, tabSize = None, start_ix = None,
     end_ix = None\<rparr>"

definition world0 :: world where
  "world0 =
    \<lparr>heap = (\<lambda>_. no_config)
       (0 := no_config\<lparr>font := Some font_F\<rparr>,
        1 := no_config\<lparr>font := Some font_F, text_c := Some ''Hi'', width := Some 200\<rparr>),
     calls = []\<rparr>"

subsection \<open>Descriptions used in the statements\<close>

text \<open>
  The configuration the constructor leaves in the store when the font is \<open>f\<close>: every
  field it finds undefined holds its default, every other field is as the caller gave it.
\<close>

definition with_defaults :: "bmfont \<Rightarrow> config \<Rightarrow> config" where
  "with_defaults f c =
    c\<lparr>width := Some (case width c of None \<Rightarrow> 500 | Some v \<Rightarrow> v),
      align := Some (case align c of None \<Rightarrow> CENTER | Some v \<Rightarrow> v),
      lineHeight := Some (case lineHeight c of None \<Rightarrow> base_lineHeight (common f) | Some v \<Rightarrow> v),
      letterSpacing := Some (case letterSpacing c of None \<Rightarrow> 5 | Some v \<Rightarrow> v),
      text_c := Some (case text_c c of None \<Rightarrow> '''' | Some v \<Rightarrow> v)\<rparr>"

text \<open>
  A configuration with no layout field left undefined, and an instance whose geometry is
  the one the generator makes for the instance's present configuration.
\<close>

definition all_defined :: "config \<Rightarrow> bool" where
  "all_defined c =
    (font c \<noteq> None \<and> width c \<noteq> None \<and> align c \<noteq> None \<and> lineHeight c \<noteq> None
     \<and> letterSpacing c \<noteq> None \<and> text_c c \<noteq> None)"

definition in_sync :: "'g engine \<Rightarrow> 'g state \<Rightarrow> bool" where
  "in_sync E s =
    (all_defined (this_config s)
     \<and> geometry (snd s) = update E (createGeometry E (this_config s)) (this_config s))"

subsection \<open>The constructor, case by case\<close>

lemma updateGeometry_pair:
  "updateGeometry E (w, tb) =
    (w\<lparr>calls := calls w @ [GeometryUpdate (heap w (config_ref tb))]\<rparr>,
     tb\<lparr>geometry := update E (geometry tb) (heap w (config_ref tb))\<rparr>)"
  by (simp add: updateGeometry_def)

lemma defaults_chain:
  assumes "font c = Some f"
  shows "default_lineHeight (default_align (default_width c))
         = Inr ((default_align (default_width c))
                 \<lparr>lineHeight := Some (case lineHeight c of None \<Rightarrow> base_lineHeight (common f) | Some v \<Rightarrow> v)\<rparr>)"
  using assms
  by (auto simp: default_lineHeight_def default_align_def default_width_def split: option.splits)

lemma defaults_result:
  assumes "font c = Some f"
  shows "default_text (default_letterSpacing ((default_align (default_width c))
                 \<lparr>lineHeight := Some (case lineHeight c of None \<Rightarrow> base_lineHeight (common f) | Some v \<Rightarrow> v)\<rparr>))
         = with_defaults f c"
  by (cases c) (auto simp: default_text_def default_letterSpacing_def default_align_def default_width_def with_defaults_def split: option.splits)

lemma TextBitmap_font:
  assumes "font (heap w a) = Some f"
  shows "TextBitmap E a tex m col w =
    (w\<lparr>heap := (heap w)(a := with_defaults f (heap w a)),
       calls := calls w @ [CreateGeometry (with_defaults f (heap w a)),
                           GeometryUpdate (with_defaults f (heap w a))]\<rparr>,
     Inr \<lparr>config_ref = a,
          mode = (case m of Some v \<Rightarrow> v | None \<Rightarrow> BITMAP),
          geometry = update E (createGeometry E (with_defaults f (heap w a)))
                       (with_defaults f (heap w a)),
          material = new_material tex col
                       (select_shader (case m of Some v \<Rightarrow> v | None \<Rightarrow> BITMAP)),
          name = ''text'', obj_type = ''TextBitmap''\<rparr>)"
  using assms defaults_chain[OF assms] defaults_result[OF assms]
  by (simp add: TextBitmap_def Let_def updateGeometry_pair)

lemma TextBitmap_no_font:
  assumes "font (heap w a) = None"
  shows "TextBitmap E a tex m col w = (w, Inl (Error ''TextBitmap configuration font is required.''))"
  using assms by (simp add: TextBitmap_def)

subsection \<open>Property writes\<close>

lemmas getters = this_config_def get_font_def get_text_def get_lineHeight_def
  get_letterSpacing_def get_align_def get_width_def get_color_def get_threshold_def
  get_smoothing_def

lemmas layout_setters = set_font_def set_text_def set_lineHeight_def set_letterSpacing_def
  set_align_def set_width_def

lemmas shading_setters = set_color_def set_threshold_def set_smoothing_def

lemmas world0_simps = world0_def no_config_def font_F_def font_G_def

lemma write_prop_pair:
  "write_prop E p (w, tb) =
    updateGeometry E
      (w\<lparr>heap := (heap w)(config_ref tb := assign p (heap w (config_ref tb)))\<rparr>, tb)"
  by (cases p) (simp_all add: layout_setters)

text \<open>
  Claim C1. Writing \<open>font\<close>, \<open>text\<close>, \<open>lineHeight\<close>, \<open>letterSpacing\<close>, \<open>align\<close> or
  \<open>width\<close> stores the value in the configuration object of the instance (the getter
  reads it back) and then runs \<open>updateGeometry\<close>: the write is \<open>updateGeometry\<close>
  applied to the state with the field stored, the trace of generator calls grows by
  exactly one \<open>update\<close> call, which is given the whole present configuration, and the
  geometry is what that call returns.
\<close>

theorem layout_write_regenerates_once:
  "write_prop E p (w, tb) =
     updateGeometry E
       (w\<lparr>heap := (heap w)(config_ref tb := assign p (heap w (config_ref tb)))\<rparr>, tb)
   \<and> reads_back p (write_prop E p (w, tb))
   \<and> this_config (write_prop E p (w, tb)) = assign p (heap w (config_ref tb))
   \<and> heap (fst (write_prop E p (w, tb))) =
       (heap w)(config_ref tb := assign p (heap w (config_ref tb)))
   \<and> material (snd (write_prop E p (w, tb))) = material tb
   \<and> calls (fst (write_prop E p (w, tb))) =
       calls w @ [GeometryUpdate (this_config (write_prop E p (w, tb)))]
   \<and> geometry (snd (write_prop E p (w, tb))) =
       update E (geometry tb) (this_config (write_prop E p (w, tb)))"
  by (cases p) (simp_all add: layout_setters updateGeometry_pair getters)

text \<open>
  Claim C2. Writing \<open>color\<close>, \<open>threshold\<close> or \<open>smoothing\<close> leaves the store (every
  configuration object and the trace of generator calls) and the geometry as they were,
  and changes the value of the one uniform written and of no other.
\<close>

theorem shading_write_frame:
  "fst (shade p s) = fst s
   \<and> geometry (snd (shade p s)) = geometry (snd s)
   \<and> this_config (shade p s) = this_config s
   \<and> config_ref (snd (shade p s)) = config_ref (snd s)
   \<and> mode (snd (shade p s)) = mode (snd s)
   \<and> fragmentShader (material (snd (shade p s))) = fragmentShader (material (snd s))
   \<and> map_u (uniforms (material (snd (shade p s)))) = map_u (uniforms (material (snd s)))
   \<and> get_color (shade p s) = (case p of WColor v \<Rightarrow> v | _ \<Rightarrow> get_color s)
   \<and> get_threshold (shade p s) = (case p of WThreshold v \<Rightarrow> v | _ \<Rightarrow> get_threshold s)
   \<and> get_smoothing (shade p s) = (case p of WSmoothing v \<Rightarrow> v | _ \<Rightarrow> get_smoothing s)"
  by (cases p; cases s) (simp_all add: shading_setters getters)

text \<open>
  Claim C3. Construction raises the error "TextBitmap configuration font is required."
  exactly when the configuration has no font. It then returns the store untouched and no
  instance. When the font is there, construction returns an instance whatever other
  fields are undefined.
\<close>

theorem construction_fails_iff_no_font:
  "((\<exists>msg. snd (TextBitmap E a tex m col w) = Inl (Error msg)) \<longleftrightarrow> font (heap w a) = None)
   \<and> (font (heap w a) = None \<longrightarrow>
        TextBitmap E a tex m col w =
          (w, Inl (Error ''TextBitmap configuration font is required.'')))
   \<and> (font (heap w a) \<noteq> None \<longrightarrow> (\<exists>tb. snd (TextBitmap E a tex m col w) = Inr tb))"
proof (cases "font (heap w a)")
  case None
  then show ?thesis by (simp add: TextBitmap_no_font)
next
  case (Some f)
  then show ?thesis by (simp add: TextBitmap_font)
qed

theorem construction_fails_iff_no_font_witness:
  "font (heap world0 2) = None
   \<and> TextBitmap line_engine 2 (Texture 7) None None world0 =
       (world0, Inl (Error ''TextBitmap configuration font is required.''))
   \<and> font (heap world0 0) \<noteq> None
   \<and> (\<exists>tb. snd (TextBitmap line_engine 0 (Texture 7) None None world0) = Inr tb)"
  using construction_fails_iff_no_font [of line_engine 2 "Texture 7" None None world0]
    construction_fails_iff_no_font [of line_engine 0 "Texture 7" None None world0]
  by (simp add: world0_simps)

text \<open>
  Claim C4. After construction with a font, each of \<open>width\<close>, \<open>align\<close>,
  \<open>lineHeight\<close>, \<open>letterSpacing\<close>, \<open>text\<close> reads 500, \<open>center\<close>, the line height of
  the font, 5 and the empty string where the caller left it undefined, and the caller's
  value otherwise; the other fields are as given. The mode is \<open>BITMAP\<close> and the colour
  is \<open>0xFFFFFF\<close> unless given, the threshold uniform is 0.4 and the smoothing uniform 0.
\<close>

theorem construction_defaults:
  assumes "font (heap w a) = Some f"
  shows "\<exists>w' tb. TextBitmap E a tex m col w = (w', Inr tb)
     \<and> get_font (w', tb) = Some f
     \<and> get_width (w', tb) = Some (case width (heap w a) of None \<Rightarrow> 500 | Some v \<Rightarrow> v)
     \<and> get_align (w', tb) = Some (case align (heap w a) of None \<Rightarrow> CENTER | Some v \<Rightarrow> v)
     \<and> get_lineHeight (w', tb) =
         Some (case lineHeight (heap w a) of None \<Rightarrow> base_lineHeight (common f) | Some v \<Rightarrow> v)
     \<and> get_letterSpacing (w', tb) =
         Some (case letterSpacing (heap w a) of None \<Rightarrow> 5 | Some v \<Rightarrow> v)
     \<and> get_text (w', tb) = Some (case text_c (heap w a) of None \<Rightarrow> '''' | Some v \<Rightarrow> v)
     \<and> wrap_mode (this_config (w', tb)) = wrap_mode (heap w a)
     \<and> tabSize (this_config (w', tb)) = tabSize (heap w a)
     \<and> start_ix (this_config (w', tb)) = start_ix (heap w a)
     \<and> end_ix (this_config (w', tb)) = end_ix (heap w a)
     \<and> mode tb = (case m of None \<Rightarrow> BITMAP | Some v \<Rightarrow> v)
     \<and> get_color (w', tb) = THREE_Color (case col of None \<Rightarrow> 0xFFFFFF | Some v \<Rightarrow> v)
     \<and> get_threshold (w', tb) = 0.4
     \<and> get_smoothing (w', tb) = 0.0"
  using assms
  by (simp add: TextBitmap_font [OF assms] getters with_defaults_def new_material_def)

theorem construction_defaults_witness:
  "font (heap world0 0) = Some font_F
   \<and> (\<exists>w' tb. TextBitmap line_engine 0 (Texture 7) None None world0 = (w', Inr tb)
        \<and> get_width (w', tb) = Some 500
        \<and> get_align (w', tb) = Some ''center''
        \<and> get_lineHeight (w', tb) = Some 32
        \<and> get_letterSpacing (w', tb) = Some 5
        \<and> get_text (w', tb) = Some ''''
        \<and> mode tb = 100
        \<and> get_color (w', tb) = THREE_Color 0xFFFFFF
        \<and> get_threshold (w', tb) = 0.4
        \<and> get_smoothing (w', tb) = 0.0)"
proof -
  have h: "font (heap world0 0) = Some font_F" by (simp add: world0_simps)
  from construction_defaults [OF h, of line_engine "Texture 7" None None]
  obtain w' tb where *: "TextBitmap line_engine 0 (Texture 7) None None world0 = (w', Inr tb)"
     "get_width (w', tb) = Some (case width (heap world0 0) of None \<Rightarrow> 500 | Some v \<Rightarrow> v)"
     "get_align (w', tb) = Some (case align (heap world0 0) of None \<Rightarrow> CENTER | Some v \<Rightarrow> v)"
     "get_lineHeight (w', tb) =
         Some (case lineHeight (heap world0 0) of None \<Rightarrow> base_lineHeight (common font_F) | Some v \<Rightarrow> v)"
     "get_letterSpacing (w', tb) =
         Some (case letterSpacing (heap world0 0) of None \<Rightarrow> 5 | Some v \<Rightarrow> v)"
     "get_text (w', tb) = Some (case text_c (heap world0 0) of None \<Rightarrow> '''' | Some v \<Rightarrow> v)"
     "mode tb = (case None of None \<Rightarrow> BITMAP | Some v \<Rightarrow> v)"
     "get_color (w', tb) = THREE_Color (case None of None \<Rightarrow> 0xFFFFFF | Some v \<Rightarrow> v)"
     "get_threshold (w', tb) = 0.4"
     "get_smoothing (w', tb) = 0.0"
    by blast
  show ?thesis
    apply (rule conjI [OF h])
    apply (rule exI [of _ w'], rule exI [of _ tb])
    using * by (simp add: world0_simps CENTER_def BITMAP_def)
qed

subsection \<open>The shader, repeated updates, setText\<close>

lemma perform_keeps_shader:
  "fragmentShader (material (snd (perform E x s))) = fragmentShader (material (snd s))
   \<and> mode (snd (perform E x s)) = mode (snd s)
   \<and> config_ref (snd (perform E x s)) = config_ref (snd s)"
proof (cases s)
  case (Pair w tb)
  show ?thesis
  proof (cases x)
    case (Layout p)
    then show ?thesis using Pair by (simp add: write_prop_pair updateGeometry_pair)
  next
    case (Shading p)
    then show ?thesis using Pair by (cases p) (simp_all add: shading_setters)
  next
    case (SetText t)
    then show ?thesis using Pair by (simp add: setText_def set_text_def updateGeometry_pair)
  next
    case UpdateGeometry
    then show ?thesis using Pair by (simp add: updateGeometry_pair)
  qed
qed

lemma run_keeps_shader:
  "fragmentShader (material (snd (run E xs s))) = fragmentShader (material (snd s))
   \<and> mode (snd (run E xs s)) = mode (snd s)
   \<and> config_ref (snd (run E xs s)) = config_ref (snd s)"
  by (induction xs arbitrary: s) (simp_all add: perform_keeps_shader)

text \<open>
  Claim C5. The fragment shader of the material is chosen by the mode argument at
  construction: \<open>SDF\<close> gives the shader with the \<open>smoothstep\<close> line, \<open>MSDF\<close> the shader
  with the median and the \<open>clamp\<close> line whose alpha is inverted, and every other or
  missing mode the shader that samples the texture directly. The three shaders differ,
  and no sequence of property writes, \<open>setText\<close> and \<open>updateGeometry\<close> calls changes the
  shader or the mode.
\<close>

theorem shader_fixed_by_mode:
  assumes "TextBitmap E a tex m col w = (w', Inr tb)"
  shows "fragmentShader (material tb) =
           (if m = Some SDF then SDF_SHADER
            else if m = Some MSDF then MSDF_SHADER else BITMAP_SHADER)
     \<and> mode tb = (case m of None \<Rightarrow> BITMAP | Some v \<Rightarrow> v)
     \<and> fragmentShader (material (snd (run E ops (w', tb)))) = fragmentShader (material tb)
     \<and> mode (snd (run E ops (w', tb))) = mode tb
     \<and> CHR 0x09 # ''float alpha = smoothstep(threshold - smoothing, threshold + smoothing, distance);''
         \<in> set SDF_SHADER
     \<and> CHR 0x09 # ''float sigDist = median(sample.r, sample.g, sample.b) - 0.5;''
         \<in> set MSDF_SHADER
     \<and> CHR 0x09 # ''float alpha = clamp(sigDist / fwidth(sigDist) + 0.5, 0.0, 1.0);''
         \<in> set MSDF_SHADER
     \<and> CHR 0x09 # ''gl_FragColor = vec4(color, 1.0 - alpha);'' \<in> set MSDF_SHADER
     \<and> CHR 0x09 # ''gl_FragColor = texture2D(map, vUv);'' \<in> set BITMAP_SHADER
     \<and> SDF_SHADER \<noteq> MSDF_SHADER \<and> SDF_SHADER \<noteq> BITMAP_SHADER
     \<and> MSDF_SHADER \<noteq> BITMAP_SHADER"
proof -
  obtain f where f: "font (heap w a) = Some f"
    using assms by (cases "font (heap w a)") (simp_all add: TextBitmap_no_font)
  have tb: "fragmentShader (material tb) = select_shader (case m of None \<Rightarrow> BITMAP | Some v \<Rightarrow> v)"
    "mode tb = (case m of None \<Rightarrow> BITMAP | Some v \<Rightarrow> v)"
    using assms TextBitmap_font [OF f, of E tex m col] by (auto simp: new_material_def)
  have sel: "select_shader (case m of None \<Rightarrow> BITMAP | Some v \<Rightarrow> v) =
           (if m = Some SDF then SDF_SHADER
            else if m = Some MSDF then MSDF_SHADER else BITMAP_SHADER)"
    by (cases m) (simp_all add: select_shader_def BITMAP_def SDF_def MSDF_def)
  have occ: "CHR 0x09 # ''float alpha = smoothstep(threshold - smoothing, threshold + smoothing, distance);''
         \<in> set SDF_SHADER"
     "CHR 0x09 # ''float sigDist = median(sample.r, sample.g, sample.b) - 0.5;''
         \<in> set MSDF_SHADER"
     "CHR 0x09 # ''float alpha = clamp(sigDist / fwidth(sigDist) + 0.5, 0.0, 1.0);''
         \<in> set MSDF_SHADER"
     "CHR 0x09 # ''gl_FragColor = vec4(color, 1.0 - alpha);'' \<in> set MSDF_SHADER"
     "CHR 0x09 # ''gl_FragColor = texture2D(map, vUv);'' \<in> set BITMAP_SHADER"
    by (simp_all add: SDF_SHADER_def MSDF_SHADER_def BITMAP_SHADER_def)
  have ne: "SDF_SHADER \<noteq> MSDF_SHADER" "SDF_SHADER \<noteq> BITMAP_SHADER" "MSDF_SHADER \<noteq> BITMAP_SHADER"
    by (simp_all add: SDF_SHADER_def MSDF_SHADER_def BITMAP_SHADER_def)
  show ?thesis
    using tb sel occ ne run_keeps_shader [of E ops "(w', tb)"] by simp
qed

theorem shader_fixed_by_mode_witness:
  "\<exists>w' tb. TextBitmap line_engine 1 (Texture 7) (Some SDF) (Some 0xFF0000) world0 = (w', Inr tb)
     \<and> fragmentShader (material tb) = SDF_SHADER
     \<and> fragmentShader (material (snd (run line_engine
          [Layout (WText ''Yo''), Shading (WSmoothing 0.1), SetText ''A'', UpdateGeometry]
          (w', tb)))) = SDF_SHADER"
proof -
  have "font (heap world0 1) = Some font_F" by (simp add: world0_simps)
  from TextBitmap_font [OF this, of line_engine "Texture 7" "Some SDF" "Some 0xFF0000"]
  obtain w' tb where c: "TextBitmap line_engine 1 (Texture 7) (Some SDF) (Some 0xFF0000) world0 = (w', Inr tb)"
    by blast
  from shader_fixed_by_mode [OF c, of "[Layout (WText ''Yo''), Shading (WSmoothing 0.1), SetText ''A'', UpdateGeometry]"]
  show ?thesis using c by simp
qed

text \<open>
  Claim C7. With a generator whose \<open>update\<close> depends on the configuration only, a
  second \<open>updateGeometry\<close> call leaves the geometry that the first call made; neither
  call changes the configuration or the material.
\<close>

theorem updateGeometry_idempotent:
  assumes "layout_pure E"
  shows "geometry (snd (updateGeometry E (updateGeometry E s))) =
           geometry (snd (updateGeometry E s))
     \<and> this_config (updateGeometry E (updateGeometry E s)) = this_config (updateGeometry E s)
     \<and> this_config (updateGeometry E s) = this_config s
     \<and> material (snd (updateGeometry E (updateGeometry E s))) = material (snd s)"
proof (cases s)
  case (Pair w tb)
  have "update E (update E (geometry tb) (heap w (config_ref tb))) (heap w (config_ref tb))
        = update E (geometry tb) (heap w (config_ref tb))"
    using assms unfolding layout_pure_def by blast
  then show ?thesis using Pair by (simp add: updateGeometry_pair this_config_def)
qed

theorem updateGeometry_idempotent_witness:
  "layout_pure line_engine
   \<and> (\<exists>w' tb. TextBitmap line_engine 1 (Texture 7) (Some SDF) (Some 0xFF0000) world0
                  = (w', Inr tb)
        \<and> geometry (snd (updateGeometry line_engine (w', tb)))
            = [(CHR ''H'', 0), (CHR ''i'', 5)]
        \<and> geometry (snd (updateGeometry line_engine (updateGeometry line_engine (w', tb))))
            = [(CHR ''H'', 0), (CHR ''i'', 5)])"
proof -
  have p: "layout_pure line_engine"
    by (simp add: layout_pure_def line_engine_def)
  have "font (heap world0 1) = Some font_F" by (simp add: world0_simps)
  from TextBitmap_font [OF this, of line_engine "Texture 7" "Some SDF" "Some 0xFF0000"]
  obtain w' tb where c:
    "TextBitmap line_engine 1 (Texture 7) (Some SDF) (Some 0xFF0000) world0 = (w', Inr tb)"
    and w': "heap w' 1 = with_defaults font_F (heap world0 1)"
    and tb: "config_ref tb = 1"
    by simp
  have g: "geometry (snd (updateGeometry line_engine (w', tb)))
            = [(CHR ''H'', 0), (CHR ''i'', 5)]"
    using w' tb
    by (simp add: updateGeometry_pair line_engine_def line_layout_def with_defaults_def
        world0_simps)
  from updateGeometry_idempotent [OF p, of "(w', tb)"]
  show ?thesis using p c g by auto
qed

text \<open>
  Claim C8. \<open>setText x\<close> and the write of \<open>x\<close> to the \<open>text\<close> property give the same
  state: the same geometry, and the \<open>text\<close> getter reads \<open>x\<close> after either.
\<close>

theorem setText_is_text_write:
  "setText E x s = set_text E x s
   \<and> geometry (snd (setText E x s)) = geometry (snd (set_text E x s))
   \<and> get_text (setText E x s) = get_text (set_text E x s)
   \<and> get_text (setText E x s) = Some x
   \<and> geometry (snd (setText E x s)) = update E (geometry (snd s)) (this_config (setText E x s))"
  by (cases s) (simp add: setText_def set_text_def updateGeometry_pair getters)

subsection \<open>Path independence\<close>

lemma with_defaults_complete: "font c = Some f \<Longrightarrow> all_defined (with_defaults f c)"
  by (simp add: all_defined_def with_defaults_def)

lemma with_defaults_id: "all_defined c \<Longrightarrow> with_defaults f c = c"
  by (cases c) (auto simp: all_defined_def with_defaults_def)

lemma assign_complete: "all_defined c \<Longrightarrow> all_defined (assign p c)"
  by (cases p) (simp_all add: all_defined_def)

lemma TextBitmap_in_sync:
  assumes "TextBitmap E a tex m col w = (w', Inr tb)"
  shows "in_sync E (w', tb)"
proof -
  obtain f where f: "font (heap w a) = Some f"
    using assms by (cases "font (heap w a)") (simp_all add: TextBitmap_no_font)
  show ?thesis
    using assms TextBitmap_font [OF f, of E tex m col] with_defaults_complete [OF f]
    by (auto simp: in_sync_def this_config_def)
qed

lemma this_config_write_prop:
  "this_config (write_prop E p s) = assign p (this_config s)"
  by (cases s) (simp add: write_prop_pair updateGeometry_pair this_config_def)

lemma write_prop_in_sync:
  assumes "layout_pure E" and "all_defined (this_config s)"
  shows "in_sync E (write_prop E p s)"
proof (cases s)
  case (Pair w tb)
  have "update E (geometry tb) (assign p (heap w (config_ref tb))) =
        update E (createGeometry E (assign p (heap w (config_ref tb))))
          (assign p (heap w (config_ref tb)))"
    using assms(1) unfolding layout_pure_def by blast
  then show ?thesis
    using Pair assms(2)
    by (simp add: in_sync_def write_prop_pair updateGeometry_pair this_config_def assign_complete)
qed

lemma updateGeometry_in_sync:
  assumes "layout_pure E" and "all_defined (this_config s)"
  shows "in_sync E (updateGeometry E s)"
proof (cases s)
  case (Pair w tb)
  have "update E (geometry tb) (heap w (config_ref tb)) =
        update E (createGeometry E (heap w (config_ref tb))) (heap w (config_ref tb))"
    using assms(1) unfolding layout_pure_def by blast
  then show ?thesis
    using Pair assms(2) by (simp add: in_sync_def updateGeometry_pair this_config_def)
qed

lemma shade_in_sync: "in_sync E s \<Longrightarrow> in_sync E (shade p s)"
  by (cases p; cases s) (simp_all add: in_sync_def shading_setters this_config_def)

lemma perform_in_sync:
  assumes "layout_pure E" and "in_sync E s"
  shows "in_sync E (perform E x s)"
proof -
  have c: "all_defined (this_config s)"
    using assms(2) by (simp add: in_sync_def)
  show ?thesis
  proof (cases x)
    case (Layout p)
    then show ?thesis using write_prop_in_sync [OF assms(1) c] by simp
  next
    case (Shading p)
    then show ?thesis using assms by (simp add: shade_in_sync)
  next
    case (SetText t)
    have "setText E t s = write_prop E (WText t) s" by (simp add: setText_def)
    then show ?thesis using SetText write_prop_in_sync [OF assms(1) c, of "WText t"] by simp
  next
    case UpdateGeometry
    then show ?thesis using updateGeometry_in_sync [OF assms(1) c] by simp
  qed
qed

lemma run_in_sync: "layout_pure E \<Longrightarrow> in_sync E s \<Longrightarrow> in_sync E (run E xs s)"
  by (induction xs arbitrary: s) (simp_all add: perform_in_sync)

lemma this_config_run_layout:
  "this_config (run E (map Layout ps) s) = merge ps (this_config s)"
  by (induction ps arbitrary: s) (simp_all add: this_config_write_prop)

lemma TextBitmap_complete:
  assumes "all_defined (heap w a)"
  shows "TextBitmap E a tex m col w =
    (w\<lparr>calls := calls w @ [CreateGeometry (heap w a), GeometryUpdate (heap w a)]\<rparr>,
     Inr \<lparr>config_ref = a,
          mode = (case m of Some v \<Rightarrow> v | None \<Rightarrow> BITMAP),
          geometry = update E (createGeometry E (heap w a)) (heap w a),
          material = new_material tex col
                       (select_shader (case m of Some v \<Rightarrow> v | None \<Rightarrow> BITMAP)),
          name = ''text'', obj_type = ''TextBitmap''\<rparr>)"
proof -
  obtain f where f: "font (heap w a) = Some f"
    using assms by (auto simp: all_defined_def)
  show ?thesis
    using TextBitmap_font [OF f, of E tex m col] with_defaults_id [OF assms, of f]
    by simp
qed

text \<open>
  Claim C6. Take an instance (a construction followed by any operations), then any
  sequence of layout writes, with a generator whose \<open>update\<close> depends on the
  configuration only. A fresh construction from a configuration object that holds the
  instance's configuration merged with the written values succeeds, and its geometry is
  the geometry of the instance after the sequence.
\<close>

theorem layout_writes_path_independent:
  assumes "layout_pure E"
    and "TextBitmap E a tex m col w = (w1, Inr tb1)"
    and "heap w2 b = merge ps (this_config (run E pre (w1, tb1)))"
  shows "\<exists>w3 tbf. TextBitmap E b tex' m' col' w2 = (w3, Inr tbf)
     \<and> geometry tbf = geometry (snd (run E (map Layout ps) (run E pre (w1, tb1))))
     \<and> this_config (w3, tbf) = this_config (run E (map Layout ps) (run E pre (w1, tb1)))
     \<and> this_config (w3, tbf) = merge ps (this_config (run E pre (w1, tb1)))"
proof -
  let ?s = "run E (map Layout ps) (run E pre (w1, tb1))"
  have "in_sync E (run E pre (w1, tb1))"
    using assms(1,2) by (simp add: run_in_sync TextBitmap_in_sync)
  then have sync: "in_sync E ?s"
    using assms(1) by (simp add: run_in_sync)
  have cfg: "this_config ?s = heap w2 b"
    using assms(3) by (simp add: this_config_run_layout)
  have comp: "all_defined (heap w2 b)"
    using sync cfg by (simp add: in_sync_def)
  show ?thesis
    using TextBitmap_complete [OF comp, of E tex' m' col'] sync cfg assms(3)
    by (simp add: in_sync_def this_config_def)
qed

theorem layout_writes_path_independent_witness:
  "layout_pure line_engine
   \<and> (\<exists>w1 tb1. TextBitmap line_engine 1 (Texture 7) (Some SDF) (Some 0xFF0000) world0
                  = (w1, Inr tb1)
        \<and> heap (world0\<lparr>heap := (heap world0)(5 := merge [WText ''A'', WLetterSpacing 2, WFont font_G, WText ''Yo'']
                  (this_config (run line_engine [Shading (WThreshold 0.5)] (w1, tb1))))\<rparr>) 5
             = merge [WText ''A'', WLetterSpacing 2, WFont font_G, WText ''Yo'']
                  (this_config (run line_engine [Shading (WThreshold 0.5)] (w1, tb1)))
        \<and> geometry (snd (run line_engine
              (map Layout [WText ''A'', WLetterSpacing 2, WFont font_G, WText ''Yo''])
              (run line_engine [Shading (WThreshold 0.5)] (w1, tb1))))
            = [(CHR ''Y'', 0), (CHR ''o'', 2)]
        \<and> (\<exists>w3 tbf. TextBitmap line_engine 5 (Texture 8) None None
               (world0\<lparr>heap := (heap world0)(5 := merge [WText ''A'', WLetterSpacing 2, WFont font_G, WText ''Yo'']
                  (this_config (run line_engine [Shading (WThreshold 0.5)] (w1, tb1))))\<rparr>)
               = (w3, Inr tbf)
             \<and> geometry tbf = [(CHR ''Y'', 0), (CHR ''o'', 2)]))"
proof -
  have p: "layout_pure line_engine"
    by (simp add: layout_pure_def line_engine_def)
  have "font (heap world0 1) = Some font_F" by (simp add: world0_simps)
  from TextBitmap_font [OF this, of line_engine "Texture 7" "Some SDF" "Some 0xFF0000"]
  obtain w1 tb1 where c:
    "TextBitmap line_engine 1 (Texture 7) (Some SDF) (Some 0xFF0000) world0 = (w1, Inr tb1)"
    and w1: "heap w1 1 = with_defaults font_F (heap world0 1)"
    and tb1: "config_ref tb1 = 1"
    by simp
  let ?ps = "[WText ''A'', WLetterSpacing 2, WFont font_G, WText ''Yo'']"
  let ?pre = "[Shading (WThreshold 0.5)]"
  let ?w2 = "world0\<lparr>heap := (heap world0)(5 := merge ?ps (this_config (run line_engine ?pre (w1, tb1))))\<rparr>"
  have h: "heap ?w2 5 = merge ?ps (this_config (run line_engine ?pre (w1, tb1)))"
    by simp
  have g: "geometry (snd (run line_engine (map Layout ?ps) (run line_engine ?pre (w1, tb1))))
            = [(CHR ''Y'', 0), (CHR ''o'', 2)]"
    by (simp add: layout_setters shading_setters updateGeometry_pair line_engine_def line_layout_def)
  from layout_writes_path_independent [OF p c h, of "Texture 8" None None]
  show ?thesis using p c h g by auto
qed

subsection \<open>Generator calls and the shared configuration object\<close>

text \<open>
  Claim C9 says that the generator computes the geometry a single time during
  construction. The constructor calls \<open>createGeometry\<close> with the configuration and then
  \<open>updateGeometry\<close>: the trace of a construction holds two calls, not one.
\<close>

theorem construction_single_computation_counterexample:
  "calls (fst (TextBitmap line_engine 0 (Texture 7) None None world0)) =
     [CreateGeometry
        (no_config\<lparr>font := Some font_F, text_c := Some '''', width := Some 500,
           align := Some ''center'', lineHeight := Some 32, letterSpacing := Some 5\<rparr>),
      GeometryUpdate
        (no_config\<lparr>font := Some font_F, text_c := Some '''', width := Some 500,
           align := Some ''center'', lineHeight := Some 32, letterSpacing := Some 5\<rparr>)]
   \<and> length (calls (fst (TextBitmap line_engine 0 (Texture 7) None None world0))) \<noteq> 1"
proof -
  have "font (heap world0 0) = Some font_F" by (simp add: world0_simps)
  from TextBitmap_font [OF this, of line_engine "Texture 7" None None]
  show ?thesis by (simp add: with_defaults_def world0_simps CENTER_def)
qed

text \<open>
  Claim C9, amended. A construction that fails calls the generator not at all. A
  construction with a font calls it exactly twice before it returns, both times with the
  configuration completed by the defaults: \<open>createGeometry\<close> once, then \<open>update\<close> once
  through \<open>updateGeometry\<close>. The geometry of the new instance is the result.
\<close>

theorem construction_engine_calls:
  "(font (heap w a) = None \<longrightarrow> calls (fst (TextBitmap E a tex m col w)) = calls w)
   \<and> (font (heap w a) \<noteq> None \<longrightarrow>
        (\<exists>w' tb. TextBitmap E a tex m col w = (w', Inr tb)
           \<and> calls w' = calls w @ [CreateGeometry (heap w' a), GeometryUpdate (heap w' a)]
           \<and> geometry tb = update E (createGeometry E (heap w' a)) (heap w' a)
           \<and> this_config (w', tb) = heap w' a))"
proof (cases "font (heap w a)")
  case None
  then show ?thesis by (simp add: TextBitmap_no_font)
next
  case (Some f)
  then show ?thesis by (simp add: TextBitmap_font this_config_def)
qed

theorem construction_engine_calls_witness:
  "font (heap world0 2) = None
   \<and> calls (fst (TextBitmap line_engine 2 (Texture 7) None None world0)) = []
   \<and> font (heap world0 1) \<noteq> None
   \<and> (\<exists>w' tb. TextBitmap line_engine 1 (Texture 7) None None world0 = (w', Inr tb)
        \<and> calls w' = [CreateGeometry (heap w' 1), GeometryUpdate (heap w' 1)]
        \<and> geometry tb = [(CHR ''H'', 0), (CHR ''i'', 5)])"
proof -
  have n: "font (heap world0 2) = None" and s: "font (heap world0 1) \<noteq> None"
    by (simp_all add: world0_simps)
  have e: "calls world0 = []" by (simp add: world0_def)
  from construction_engine_calls [of world0 1 line_engine "Texture 7" None None] s
  obtain w' tb where c: "TextBitmap line_engine 1 (Texture 7) None None world0 = (w', Inr tb)"
    and l: "calls w' = calls world0 @ [CreateGeometry (heap w' 1), GeometryUpdate (heap w' 1)]"
    and g: "geometry tb = update line_engine (createGeometry line_engine (heap w' 1)) (heap w' 1)"
    by blast
  have "font (heap world0 1) = Some font_F" by (simp add: world0_simps)
  from TextBitmap_font [OF this, of line_engine "Texture 7" None None] c
  have "heap w' 1 = with_defaults font_F (heap world0 1)" by auto
  then have "geometry tb = [(CHR ''H'', 0), (CHR ''i'', 5)]"
    using g by (simp add: line_engine_def line_layout_def with_defaults_def world0_simps)
  then show ?thesis
    using construction_engine_calls [of world0 2 line_engine "Texture 7" None None] n s c l e
    by simp
qed

text \<open>
  Claim C10. The instance keeps the address of the caller's configuration object. The
  constructor writes the defaults into that object and into no other, a later property
  write changes that same object, no operation makes the instance point elsewhere, and
  after the caller changes the object to any \<open>c\<close> the next \<open>updateGeometry\<close> gives
  \<open>c\<close> to the generator.
\<close>

theorem config_shared_by_reference:
  assumes "font (heap w a) = Some f"
  shows "\<exists>w' tb. TextBitmap E a tex m col w = (w', Inr tb)
     \<and> config_ref tb = a
     \<and> heap w' = (heap w)(a := with_defaults f (heap w a))
     \<and> width (heap w' a) \<noteq> None \<and> align (heap w' a) \<noteq> None
     \<and> lineHeight (heap w' a) \<noteq> None \<and> letterSpacing (heap w' a) \<noteq> None
     \<and> text_c (heap w' a) \<noteq> None
     \<and> heap (fst (write_prop E p (w', tb))) = (heap w')(a := assign p (heap w' a))
     \<and> config_ref (snd (run E ops (w', tb))) = a
     \<and> calls (fst (updateGeometry E (w'\<lparr>heap := (heap w')(a := c)\<rparr>, tb))) =
         calls w' @ [GeometryUpdate c]
     \<and> geometry (snd (updateGeometry E (w'\<lparr>heap := (heap w')(a := c)\<rparr>, tb))) =
         update E (geometry tb) c"
proof -
  let ?w = "w\<lparr>heap := (heap w)(a := with_defaults f (heap w a)),
       calls := calls w @ [CreateGeometry (with_defaults f (heap w a)),
                           GeometryUpdate (with_defaults f (heap w a))]\<rparr>"
  let ?tb = "\<lparr>config_ref = a,
          mode = (case m of Some v \<Rightarrow> v | None \<Rightarrow> BITMAP),
          geometry = update E (createGeometry E (with_defaults f (heap w a)))
                       (with_defaults f (heap w a)),
          material = new_material tex col
                       (select_shader (case m of Some v \<Rightarrow> v | None \<Rightarrow> BITMAP)),
          name = ''text'', obj_type = ''TextBitmap''\<rparr>"
  have c: "TextBitmap E a tex m col w = (?w, Inr ?tb)"
    by (rule TextBitmap_font [OF assms])
  have r: "config_ref (snd (run E ops (?w, ?tb))) = a"
    using run_keeps_shader [of E ops "(?w, ?tb)"] by simp
  show ?thesis
    apply (rule exI [of _ ?w], rule exI [of _ ?tb])
    using c r by (simp add: write_prop_pair updateGeometry_pair with_defaults_def)
qed

theorem config_shared_by_reference_witness:
  "font (heap world0 0) = Some font_F
   \<and> (\<exists>w' tb. TextBitmap line_engine 0 (Texture 7) None None world0 = (w', Inr tb)
        \<and> config_ref tb = 0
        \<and> heap w' 0 =
            no_config\<lparr>font := Some font_F, text_c := Some '''', width := Some 500,
              align := Some ''center'', lineHeight := Some 32, letterSpacing := Some 5\<rparr>
        \<and> heap (fst (write_prop line_engine (WWidth 300) (w', tb))) 0 =
            no_config\<lparr>font := Some font_F, text_c := Some '''', width := Some 300,
              align := Some ''center'', lineHeight := Some 32, letterSpacing := Some 5\<rparr>
        \<and> geometry (snd (updateGeometry line_engine
              (w'\<lparr>heap := (heap w')(0 := no_config\<lparr>font := Some font_F,
                   text_c := Some ''Zed'', letterSpacing := Some 3\<rparr>)\<rparr>, tb))) =
            [(CHR ''Z'', 0), (CHR ''e'', 3), (CHR ''d'', 6)])"
proof -
  have h: "font (heap world0 0) = Some font_F" by (simp add: world0_simps)
  from config_shared_by_reference [OF h, of line_engine "Texture 7" None None "WWidth 300" "[]"
      "no_config\<lparr>font := Some font_F, text_c := Some ''Zed'', letterSpacing := Some 3\<rparr>"]
  obtain w' tb where c: "TextBitmap line_engine 0 (Texture 7) None None world0 = (w', Inr tb)"
    and r: "config_ref tb = 0"
    and d: "heap w' = (heap world0)(0 := with_defaults font_F (heap world0 0))"
    and p: "heap (fst (write_prop line_engine (WWidth 300) (w', tb))) =
             (heap w')(0 := assign (WWidth 300) (heap w' 0))"
    and g: "geometry (snd (updateGeometry line_engine
              (w'\<lparr>heap := (heap w')(0 := no_config\<lparr>font := Some font_F,
                   text_c := Some ''Zed'', letterSpacing := Some 3\<rparr>)\<rparr>, tb))) =
            update line_engine (geometry tb) (no_config\<lparr>font := Some font_F,
                   text_c := Some ''Zed'', letterSpacing := Some 3\<rparr>)"
    by blast
  show ?thesis
    apply (rule conjI [OF h])
    apply (rule exI [of _ w'], rule exI [of _ tb])
    using c r d p g
    by (simp add: with_defaults_def world0_simps CENTER_def line_engine_def line_layout_def)
qed

end
